theory Spec2Isabelle
  imports Main
begin

section \<open>JavaScript values the handlers of main.js read and build\<close>

text \<open>
  The IPC handlers of main.js receive a JSON document from the analysis service
  (\<open>response.data\<close>) and answer the renderer with object literals.  A value is one of
  JavaScript's primitives, a \<open>Date\<close> (\<open>stats.mtime\<close>, in milliseconds) or an object, kept
  as the list of its properties in insertion order; a later binding of a key wins, as in
  \<open>JSON.parse\<close> and in an object literal.  Numbers are the integers (sizes, counters).
\<close>

datatype jsval =
    JUndefined
  | JNull
  | JBool bool
  | JNum int
  | JStr string
  | JDate int
  | JObj "(string \<times> jsval) list"

text \<open>An exception object: its \<open>name\<close>, its system \<open>code\<close> when it has one, its \<open>message\<close>.\<close>

record js_error =
  err_name :: string
  err_code :: "string option"
  message :: string

text \<open>JavaScript's \<open>ToBoolean\<close>, which decides \<open>if (v)\<close> and \<open>v || w\<close>.\<close>

fun truthy :: "jsval \<Rightarrow> bool" where
  "truthy JUndefined = False"
| "truthy JNull = False"
| "truthy (JBool b) = b"
| "truthy (JNum n) = (n \<noteq> 0)"
| "truthy (JStr s) = (s \<noteq> [])"
| "truthy (JDate t) = True"
| "truthy (JObj ps) = True"

text \<open>\<open>a || b\<close>: the left operand when it is truthy, the right one otherwise.\<close>

definition js_or :: "jsval \<Rightarrow> jsval \<Rightarrow> jsval" where
  "js_or a b = (if truthy a then a else b)"

definition type_error :: "string \<Rightarrow> string \<Rightarrow> js_error" where
  "type_error what k =
     \<lparr>err_name = ''TypeError'', err_code = None,
      message = ''Cannot read properties of '' @ what @ '' (reading '' @ [CHR 0x27] @ k @ [CHR 0x27] @ '')''\<rparr>"

text \<open>
  The property read \<open>v.k\<close>, for the keys main.js reads (\<open>success\<close>, \<open>reportPath\<close>,
  \<open>error\<close>): on \<open>undefined\<close> and \<open>null\<close> it throws a \<open>TypeError\<close>; on an object it is the
  last binding of the key, \<open>undefined\<close> when there is none; a primitive or a date has none of
  these keys.
\<close>

fun get_prop :: "jsval \<Rightarrow> string \<Rightarrow> js_error + jsval" where
  "get_prop JUndefined k = Inl (type_error ''undefined'' k)"
| "get_prop JNull k = Inl (type_error ''null'' k)"
| "get_prop (JObj ps) k = Inr (case map_of (rev ps) k of Some v \<Rightarrow> v | None \<Rightarrow> JUndefined)"
| "get_prop v k = Inr JUndefined"

text \<open>
  What the renderer's \<open>ipcRenderer.invoke\<close> observes of a handler: the value it returned,
  the exception it threw (the promise is rejected), or nothing, when the handler never
  settles.
\<close>

datatype 'a outcome = Returned 'a | Thrown js_error | NoReturn

datatype console_line = ConsoleLog string string | ConsoleError string string

section \<open>analyze-file (main.js, lines 180-209)\<close>

text \<open>
  What the body of the \<open>try\<close> block meets before it reads the response: \<open>axios.post\<close>
  resolves with a response whose \<open>data\<close> is the decoded body, or an exception is thrown
  (building the form, connection refused, a status outside 2xx, a socket timeout), or the
  request stays pending (no timeout is configured).
\<close>

datatype post_outcome = Resolved jsval | Rejected js_error | Pending

text \<open>The \<open>catch\<close> block: log, and answer with the failure object.\<close>

definition analyze_catch :: "js_error \<Rightarrow> console_line list \<times> jsval outcome" where
  "analyze_catch e =
     ([ConsoleError ''Analysis error:'' (message e)],
      Returned (JObj [(''success'', JBool False),
                      (''error'', js_or (JStr (message e)) (JStr ''Failed to analyze file''))]))"

definition analyze_file :: "post_outcome \<Rightarrow> console_line list \<times> jsval outcome" where
  "analyze_file po =
     (case po of
        Pending \<Rightarrow> ([], NoReturn)
      | Rejected e \<Rightarrow> analyze_catch e
      | Resolved d \<Rightarrow>
          (case get_prop d ''success'' of
             Inl e \<Rightarrow> analyze_catch e
           | Inr s \<Rightarrow>
               if truthy s then
                 (case get_prop d ''reportPath'' of
                    Inl e \<Rightarrow> analyze_catch e
                  | Inr p \<Rightarrow> ([], Returned (JObj [(''success'', JBool True), (''path'', p)])))
               else
                 (case get_prop d ''error'' of
                    Inl e \<Rightarrow> analyze_catch e
                  | Inr er \<Rightarrow>
                      ([], Returned (JObj [(''success'', JBool False),
                                           (''error'', js_or er (JStr ''Analysis failed''))])))))"

text \<open>The two shapes of the answer, as the renderer tells them apart (\<open>result.success\<close>).\<close>

definition failure :: "string \<Rightarrow> jsval" where
  "failure m = JObj [(''success'', JBool False), (''error'', JStr m)]"

definition field :: "jsval \<Rightarrow> string \<Rightarrow> jsval" where
  "field v k = (case get_prop v k of Inr x \<Rightarrow> x | Inl e \<Rightarrow> JUndefined)"

section \<open>The runtime: process, file system and path module\<close>

text \<open>
  A path names nothing, or cannot be reached (a directory on the way may not be searched),
  or names a regular file with its bytes and its modification time in milliseconds.
\<close>

datatype fs_node = Absent | NoAccess | RegularFile (contents: string) (mtime: int)

text \<open>
  What main.js reads of its surroundings: \<open>process.env.NODE_ENV\<close>, \<open>process.platform\<close>,
  \<open>process.resourcesPath\<close>, \<open>__dirname\<close>, the file system, and the two functions of
  Node's \<open>path\<close> module it calls, which depend on the platform.
\<close>

record runtime =
  NODE_ENV :: "string option"
  platform :: string
  resourcesPath :: "string option"
  dirname :: string
  files :: "string \<Rightarrow> fs_node"
  path_join :: "string list \<Rightarrow> string"
  path_basename :: "string \<Rightarrow> string"

record stats =
  st_size :: int
  st_mtime :: int

definition system_error :: "string \<Rightarrow> string \<Rightarrow> string \<Rightarrow> js_error" where
  "system_error code text p =
     \<lparr>err_name = ''Error'', err_code = Some code,
      message = code @ '': '' @ text @ '', stat '' @ [CHR 0x27] @ p @ [CHR 0x27]\<rparr>"

text \<open>\<open>fs.promises.stat\<close>: the size is the number of bytes of the file.\<close>

definition fs_stat :: "runtime \<Rightarrow> string \<Rightarrow> js_error + stats" where
  "fs_stat rt p =
     (case files rt p of
        Absent \<Rightarrow> Inl (system_error ''ENOENT'' ''no such file or directory'' p)
      | NoAccess \<Rightarrow> Inl (system_error ''EACCES'' ''permission denied'' p)
      | RegularFile bytes t \<Rightarrow> Inr \<lparr>st_size = int (length bytes), st_mtime = t\<rparr>)"

text \<open>\<open>fs.existsSync\<close>: false whenever the path cannot be reached.\<close>

definition fs_existsSync :: "runtime \<Rightarrow> string \<Rightarrow> bool" where
  "fs_existsSync rt p = (case files rt p of RegularFile bytes t \<Rightarrow> True | _ \<Rightarrow> False)"

text \<open>
  A POSIX instance of the two path functions, for the examples: the segments joined by a
  slash (paths without \<open>.\<close>, \<open>..\<close> or doubled slashes need no normalising), and the last
  segment of a path, trailing slashes dropped.
\<close>

definition posix_join :: "string list \<Rightarrow> string" where
  "posix_join ps = foldr (\<lambda>s acc. if acc = [] then s else s @ ''/'' @ acc) ps []"

definition posix_basename :: "string \<Rightarrow> string" where
  "posix_basename p =
     rev (takeWhile (\<lambda>c. c \<noteq> CHR ''/'') (dropWhile (\<lambda>c. c = CHR ''/'') (rev p)))"

section \<open>get-file-info (main.js, lines 165-177)\<close>

definition get_file_info :: "runtime \<Rightarrow> string \<Rightarrow> console_line list \<times> jsval outcome" where
  "get_file_info rt filePath =
     (case fs_stat rt filePath of
        Inr st \<Rightarrow>
          ([], Returned (JObj [(''name'', JStr (path_basename rt filePath)),
                               (''size'', JNum (st_size st)),
                               (''lastModified'', JDate (st_mtime st))]))
      | Inl e \<Rightarrow> ([ConsoleError ''Error getting file info:'' (message e)], Thrown e))"

section \<open>The host process: effects, state, sidecar, updater\<close>

text \<open>The calls main.js makes on Electron, the updater and the child process.\<close>

datatype action =
    Console console_line
  | NewBrowserWindow
  | LoadFile string
  | OpenDevTools
  | Spawn string "string list" "(string \<times> string) list"
  | KillChild
  | ShowMessageBox string string "string list"
  | ShowErrorBox string string
  | Send string jsval
  | UpdaterCheckForUpdates
  | UpdaterDownloadUpdate
  | UpdaterQuitAndInstall
  | ListenerThrew string

text \<open>
  \<open>ListenerThrew\<close> records that a listener threw (with the message of the exception): the
  exception leaves \<open>emit\<close>, to the updater that emitted the event.

  The module's state: the calls made so far, the \<open>then\<close> callbacks of the message boxes
  still open (each waits for \<open>result.response\<close>, the index of the button), the global
  \<open>flaskProcess\<close> (the executable of the child, once one is spawned), and whether the global
  \<open>mainWindow\<close> holds a window: it is \<open>undefined\<close> until \<open>createWindow\<close> assigns it.
\<close>

record host =
  trace :: "action list"
  pending :: "(int \<Rightarrow> action list) list"
  flaskProcess :: "string option"
  mainWindow :: bool

definition initial :: host where
  "initial = \<lparr>trace = [], pending = [], flaskProcess = None, mainWindow = False\<rparr>"

definition did :: "action list \<Rightarrow> host \<Rightarrow> host" where
  "did as h = h\<lparr>trace := trace h @ as\<rparr>"



subsection \<open>Starting the sidecar (lines 23-44 and 75-106)\<close>

definition plain_error :: "string \<Rightarrow> js_error" where
  "plain_error m = \<lparr>err_name = ''Error'', err_code = None, message = m\<rparr>"

definition getPythonPath :: "runtime \<Rightarrow> js_error + string" where
  "getPythonPath rt =
     (if NODE_ENV rt = Some ''development'' then
        Inr (if platform rt = ''win32'' then ''python'' else ''python3'')
      else if resourcesPath rt = None \<or> resourcesPath rt = Some [] then
        Inl (plain_error ''Resources path not found'')
      else
        let pythonPath =
              (if platform rt = ''win32''
               then path_join rt [the (resourcesPath rt), ''python'', ''Scripts'', ''python.exe'']
               else path_join rt [the (resourcesPath rt), ''python'', ''bin'', ''python3''])
        in if \<not> fs_existsSync rt pythonPath
           then Inl (plain_error (''Python executable not found at: '' @ pythonPath))
           else Inr pythonPath)"

text \<open>
  \<open>startFlaskServer\<close>: \<open>spawn\<close> returns the child at once (a failure to launch arrives later
  as the child's \<open>error\<close> event); an exception of \<open>getPythonPath\<close> goes to the \<open>catch\<close>.
\<close>

definition startFlaskServer :: "runtime \<Rightarrow> host \<Rightarrow> host" where
  "startFlaskServer rt h =
     (case getPythonPath rt of
        Inr pythonPath \<Rightarrow>
          (let flaskScript = path_join rt [dirname rt, ''flask_server.py''] in
           (did [Console (ConsoleLog ''Starting Flask server with Python:'' pythonPath),
                 Console (ConsoleLog ''Flask script path:'' flaskScript),
                 Spawn pythonPath [flaskScript] [(''PYTHONPATH'', path_join rt [dirname rt])]] h)
             \<lparr>flaskProcess := Some pythonPath\<rparr>)
      | Inl error \<Rightarrow>
          did [Console (ConsoleError ''Error starting Flask server:'' (message error)),
               ShowErrorBox ''Server Error'' (''Failed to start server: '' @ message error)] h)"

subsection \<open>The updater's events and their listeners (lines 115-147 and 212-235)\<close>

text \<open>
  The events of \<open>autoUpdater\<close> main.js listens to; an \<open>info\<close> is known by its \<open>version\<close>,
  an error by its \<open>message\<close>, a progress report is passed on as it is.
\<close>

datatype updater_event =
    CheckingForUpdate
  | UpdateAvailable string
  | UpdateNotAvailable string
  | UpdaterError string
  | DownloadProgress jsval
  | UpdateDownloaded string

text \<open>
  What one listener does when it is called: the calls it makes before it returns or throws,
  the \<open>then\<close> callback it leaves on the message box it opened, if it opened one, and the
  exception it throws, if it throws.
\<close>

record reaction =
  now :: "action list"
  on_response :: "(int \<Rightarrow> action list) option"
  throws :: "js_error option"

text \<open>
  \<open>mainWindow.webContents.send(channel, v)\<close> followed by the rest of the listener: while
  \<open>mainWindow\<close> is \<open>undefined\<close> the read of \<open>webContents\<close> throws a \<open>TypeError\<close> and the
  rest does not run.
\<close>

definition webContents_send :: "bool \<Rightarrow> string \<Rightarrow> jsval \<Rightarrow> action list \<Rightarrow> reaction" where
  "webContents_send window channel v rest =
     (if window
      then \<lparr>now = Send channel v # rest, on_response = None, throws = None\<rparr>
      else \<lparr>now = [], on_response = None,
            throws = Some (type_error ''undefined'' ''webContents'')\<rparr>)"

text \<open>
  The nine listeners, named by the line that registers them; the first argument tells whether
  \<open>mainWindow\<close> holds a window.  A listener answers \<open>None\<close> to an event it is not
  registered for.  \<open>dialog.showMessageBox\<close> takes an \<open>undefined\<close> window for no parent
  window and opens the box all the same.
\<close>

fun on_update_available_115 :: "bool \<Rightarrow> updater_event \<Rightarrow> reaction option" where
  "on_update_available_115 window (UpdateAvailable version) =
     Some \<lparr>now = [ShowMessageBox ''Update Available''
                    (''Version '' @ version @ '' is available. Would you like to download it now?'')
                    [''Yes'', ''No'']],
           on_response = Some (\<lambda>response. if response = 0 then [UpdaterDownloadUpdate] else []),
           throws = None\<rparr>"
| "on_update_available_115 window _ = None"

fun on_update_downloaded_130 :: "bool \<Rightarrow> updater_event \<Rightarrow> reaction option" where
  "on_update_downloaded_130 window (UpdateDownloaded version) =
     Some \<lparr>now = [ShowMessageBox ''Update Ready''
                    (''Version '' @ version @ '' has been downloaded. Would you like to install it now?'')
                    [''Yes'', ''No'']],
           on_response = Some (\<lambda>response. if response = 0 then [UpdaterQuitAndInstall] else []),
           throws = None\<rparr>"
| "on_update_downloaded_130 window _ = None"

fun on_error_145 :: "bool \<Rightarrow> updater_event \<Rightarrow> reaction option" where
  "on_error_145 window (UpdaterError msg) =
     Some \<lparr>now = [ShowErrorBox ''Update Error'' msg], on_response = None, throws = None\<rparr>"
| "on_error_145 window _ = None"

fun on_checking_for_update_212 :: "bool \<Rightarrow> updater_event \<Rightarrow> reaction option" where
  "on_checking_for_update_212 window CheckingForUpdate =
     Some (webContents_send window ''update-status'' (JStr ''Checking for updates...'') [])"
| "on_checking_for_update_212 window _ = None"

fun on_update_available_216 :: "bool \<Rightarrow> updater_event \<Rightarrow> reaction option" where
  "on_update_available_216 window (UpdateAvailable version) =
     Some (webContents_send window ''update-status'' (JStr ''Update available. Downloading...'') [])"
| "on_update_available_216 window _ = None"

fun on_update_not_available_220 :: "bool \<Rightarrow> updater_event \<Rightarrow> reaction option" where
  "on_update_not_available_220 window (UpdateNotAvailable version) =
     Some (webContents_send window ''update-status'' (JStr ''No updates available'') [])"
| "on_update_not_available_220 window _ = None"

fun on_error_224 :: "bool \<Rightarrow> updater_event \<Rightarrow> reaction option" where
  "on_error_224 window (UpdaterError msg) =
     Some (webContents_send window ''update-status'' (JStr ''Error checking for updates'') [])"
| "on_error_224 window _ = None"

fun on_download_progress_228 :: "bool \<Rightarrow> updater_event \<Rightarrow> reaction option" where
  "on_download_progress_228 window (DownloadProgress progressObj) =
     Some (webContents_send window ''update-progress'' progressObj [])"
| "on_download_progress_228 window _ = None"

fun on_update_downloaded_232 :: "bool \<Rightarrow> updater_event \<Rightarrow> reaction option" where
  "on_update_downloaded_232 window (UpdateDownloaded version) =
     Some (webContents_send window ''update-status'' (JStr ''Update downloaded. Restarting...'')
             [UpdaterQuitAndInstall])"
| "on_update_downloaded_232 window _ = None"

text \<open>The listeners in the order main.js registers them.\<close>

definition listeners :: "(bool \<Rightarrow> updater_event \<Rightarrow> reaction option) list" where
  "listeners =
     [on_update_available_115, on_update_downloaded_130, on_error_145,
      on_checking_for_update_212, on_update_available_216, on_update_not_available_220,
      on_error_224, on_download_progress_228, on_update_downloaded_232]"

text \<open>
  \<open>emit\<close>: an event emitter calls the listeners of the event one after the other, in the
  order of registration, before anything else runs, and stops at the first one that throws;
  a \<open>then\<close> callback runs later, once its message box is answered.
\<close>

fun call_listeners :: "reaction list \<Rightarrow> reaction list" where
  "call_listeners [] = []"
| "call_listeners (r # rs) = (if throws r \<noteq> None then [r] else r # call_listeners rs)"

definition emit :: "bool \<Rightarrow> updater_event \<Rightarrow> reaction list" where
  "emit window ev = call_listeners (List.map_filter (\<lambda>l. l window ev) listeners)"

definition on_emit :: "updater_event \<Rightarrow> host \<Rightarrow> host" where
  "on_emit ev h =
     h\<lparr>trace := trace h @ concat (map now (emit (mainWindow h) ev)) @
                 map (\<lambda>e. ListenerThrew (message e))
                     (List.map_filter throws (emit (mainWindow h) ev)),
       pending := pending h @ List.map_filter on_response (emit (mainWindow h) ev)\<rparr>"

text \<open>
  The message box at position \<open>i\<close> among the open ones is answered with button \<open>response\<close>:
  its callback runs and it is no longer open.
\<close>

definition on_dialog_closed :: "nat \<Rightarrow> int \<Rightarrow> host \<Rightarrow> host" where
  "on_dialog_closed i response h =
     (if i < length (pending h)
      then h\<lparr>trace := trace h @ (pending h ! i) response,
             pending := take i (pending h) @ drop (Suc i) (pending h)\<rparr>
      else h)"

subsection \<open>Checking for updates (lines 109-113 and 238-240), start and quit\<close>

text \<open>
  \<open>checkForUpdates\<close> calls the updater and logs a rejection of the promise it gets back
  (\<open>rejection\<close> is how that promise settles).  The callback of \<open>setInterval\<close> calls the
  updater with no \<open>catch\<close>.
\<close>

definition checkForUpdates :: "js_error option \<Rightarrow> host \<Rightarrow> host" where
  "checkForUpdates rejection h =
     did (UpdaterCheckForUpdates #
          (case rejection of
             None \<Rightarrow> []
           | Some err \<Rightarrow> [Console (ConsoleError ''Error checking for updates:'' (message err))])) h"

definition on_interval :: "host \<Rightarrow> host" where
  "on_interval h = did [UpdaterCheckForUpdates] h"

definition createWindow :: "runtime \<Rightarrow> js_error option \<Rightarrow> host \<Rightarrow> host" where
  "createWindow rt rejection h =
     checkForUpdates rejection
       (startFlaskServer rt
          (did ([NewBrowserWindow, LoadFile ''index.html''] @
                (if NODE_ENV rt = Some ''development'' then [OpenDevTools] else []))
               (h\<lparr>mainWindow := True\<rparr>)))"

text \<open>The child's \<open>error\<close> event (lines 98-101) and \<open>before-quit\<close> (lines 256-260).\<close>

definition on_child_error :: "string \<Rightarrow> host \<Rightarrow> host" where
  "on_child_error msg h =
     did [Console (ConsoleError ''Failed to start Flask server:'' msg),
          ShowErrorBox ''Server Error'' (''Failed to start server: '' @ msg)] h"

definition on_before_quit :: "host \<Rightarrow> host" where
  "on_before_quit h = (if flaskProcess h \<noteq> None then did [KillChild] h else h)"

subsection \<open>The event loop\<close>

text \<open>What can happen to the main process, one callback at a time.\<close>

datatype input =
    WhenReady "js_error option"
  | Interval
  | Emit updater_event
  | DialogClosed nat int
  | ChildError string
  | BeforeQuit

fun step :: "runtime \<Rightarrow> input \<Rightarrow> host \<Rightarrow> host" where
  "step rt (WhenReady rejection) h = createWindow rt rejection h"
| "step rt Interval h = on_interval h"
| "step rt (Emit ev) h = on_emit ev h"
| "step rt (DialogClosed i response) h = on_dialog_closed i response h"
| "step rt (ChildError msg) h = on_child_error msg h"
| "step rt BeforeQuit h = on_before_quit h"

fun run :: "runtime \<Rightarrow> input list \<Rightarrow> host \<Rightarrow> host" where
  "run rt [] h = h"
| "run rt (i # is) h = run rt is (step rt i h)"

section \<open>Vocabulary of the results\<close>

text \<open>Whether a handler answered with a value, and a field of that value.\<close>

fun is_returned :: "'a outcome \<Rightarrow> bool" where
  "is_returned (Returned v) = True"
| "is_returned _ = False"

fun result_field :: "jsval outcome \<Rightarrow> string \<Rightarrow> jsval option" where
  "result_field (Returned v) k = Some (field v k)"
| "result_field _ k = None"

text \<open>A packaged installation on Linux and a development checkout, over a file system.\<close>

definition packaged_linux :: "(string \<Rightarrow> fs_node) \<Rightarrow> runtime" where
  "packaged_linux fs =
     \<lparr>NODE_ENV = None, platform = ''linux'', resourcesPath = Some ''/opt/VibeCheck/resources'',
      dirname = ''/opt/VibeCheck/resources/app'', files = fs,
      path_join = posix_join, path_basename = posix_basename\<rparr>"

definition development_linux :: "(string \<Rightarrow> fs_node) \<Rightarrow> runtime" where
  "development_linux fs =
     \<lparr>NODE_ENV = Some ''development'', platform = ''linux'', resourcesPath = None,
      dirname = ''/home/dev/vibecheck-pro'', files = fs,
      path_join = posix_join, path_basename = posix_basename\<rparr>"

definition empty_disk :: "string \<Rightarrow> fs_node" where
  "empty_disk p = Absent"

definition one_file :: "string \<Rightarrow> string \<Rightarrow> int \<Rightarrow> string \<Rightarrow> fs_node" where
  "one_file p bytes t q = (if q = p then RegularFile bytes t else Absent)"


section \<open>Auxiliary facts\<close>

text \<open>The reactions to each event, with a window and without one.\<close>

lemma emit_window_simps:
  "emit True CheckingForUpdate =
     [\<lparr>now = [Send ''update-status'' (JStr ''Checking for updates...'')], on_response = None,
       throws = None\<rparr>]"
  "emit True (UpdateNotAvailable v) =
     [\<lparr>now = [Send ''update-status'' (JStr ''No updates available'')], on_response = None,
       throws = None\<rparr>]"
  "emit True (UpdaterError m) =
     [\<lparr>now = [ShowErrorBox ''Update Error'' m], on_response = None, throws = None\<rparr>,
      \<lparr>now = [Send ''update-status'' (JStr ''Error checking for updates'')], on_response = None,
       throws = None\<rparr>]"
  "emit True (DownloadProgress p) =
     [\<lparr>now = [Send ''update-progress'' p], on_response = None, throws = None\<rparr>]"
  "emit True (UpdateAvailable v) =
     [\<lparr>now = [ShowMessageBox ''Update Available''
                (''Version '' @ v @ '' is available. Would you like to download it now?'')
                [''Yes'', ''No'']],
       on_response = Some (\<lambda>response. if response = 0 then [UpdaterDownloadUpdate] else []),
       throws = None\<rparr>,
      \<lparr>now = [Send ''update-status'' (JStr ''Update available. Downloading...'')],
       on_response = None, throws = None\<rparr>]"
  "emit True (UpdateDownloaded v) =
     [\<lparr>now = [ShowMessageBox ''Update Ready''
                (''Version '' @ v @ '' has been downloaded. Would you like to install it now?'')
                [''Yes'', ''No'']],
       on_response = Some (\<lambda>response. if response = 0 then [UpdaterQuitAndInstall] else []),
       throws = None\<rparr>,
      \<lparr>now = [Send ''update-status'' (JStr ''Update downloaded. Restarting...''),
              UpdaterQuitAndInstall],
       on_response = None, throws = None\<rparr>]"
  by (simp_all add: emit_def listeners_def List.map_filter_simps webContents_send_def)


lemma run_append: "run rt (xs @ ys) h = run rt ys (run rt xs h)"
  by (induction xs arbitrary: h) simp_all

text \<open>After \<open>createWindow\<close> there is a window, and no message box was opened by it.\<close>

lemma startFlaskServer_fields:
  "mainWindow (startFlaskServer rt h) = mainWindow h"
  "pending (startFlaskServer rt h) = pending h"
  by (simp_all add: startFlaskServer_def did_def Let_def split: sum.splits)

lemma createWindow_fields:
  "mainWindow (createWindow rt rej h) = True"
  "pending (createWindow rt rej h) = pending h"
  by (simp_all add: createWindow_def checkForUpdates_def did_def startFlaskServer_fields)

text \<open>An answer to a message box only adds to the trace.\<close>

lemma on_dialog_closed_keeps: "a \<in> set (trace h) \<Longrightarrow> a \<in> set (trace (on_dialog_closed i r h))"
  by (simp add: on_dialog_closed_def)







section \<open>The update flow\<close>

text \<open>
  C1. The claim: after the download, the application quits and installs only when the user
  accepts the install prompt.  The code, once \<open>createWindow\<close> has run, at the event
  \<open>update-downloaded\<close>: the listener of line 130 opens the prompt, and the listener of line
  232, called right after it, sends the status and calls \<open>quitAndInstall\<close> before any
  answer; the call is in the trace whatever the user answers, here the second button (\<open>No\<close>).
\<close>

theorem update_downloaded_installs_unasked:
  "trace (run rt (ins @ [WhenReady rej, Emit (UpdateDownloaded v)]) h) =
     trace (run rt (ins @ [WhenReady rej]) h) @
     [ShowMessageBox ''Update Ready''
        (''Version '' @ v @ '' has been downloaded. Would you like to install it now?'')
        [''Yes'', ''No''],
      Send ''update-status'' (JStr ''Update downloaded. Restarting...''),
      UpdaterQuitAndInstall]
   \<and> UpdaterQuitAndInstall \<in> set (trace (run rt
         (ins @ [WhenReady rej, Emit (UpdateDownloaded v), DialogClosed i 1]) h))
   \<and> trace (run rt [WhenReady None, Emit (UpdateDownloaded ''1.0.1''), DialogClosed 0 1] initial) =
       trace (run rt [WhenReady None] initial) @
       [ShowMessageBox ''Update Ready''
          ''Version 1.0.1 has been downloaded. Would you like to install it now?''
          [''Yes'', ''No''],
        Send ''update-status'' (JStr ''Update downloaded. Restarting...''),
        UpdaterQuitAndInstall]"
proof -
  define g where "g = createWindow rt rej (run rt ins h)"
  have w: "mainWindow g = True" by (simp add: g_def createWindow_fields)
  have emitted: "trace (on_emit (UpdateDownloaded v) g) = trace g @
     [ShowMessageBox ''Update Ready''
        (''Version '' @ v @ '' has been downloaded. Would you like to install it now?'')
        [''Yes'', ''No''],
      Send ''update-status'' (JStr ''Update downloaded. Restarting...''),
      UpdaterQuitAndInstall]"
    by (simp add: on_emit_def w emit_window_simps List.map_filter_simps)
  then have "UpdaterQuitAndInstall \<in> set (trace (on_emit (UpdateDownloaded v) g))" by simp
  then have declined:
    "UpdaterQuitAndInstall \<in> set (trace (on_dialog_closed i 1 (on_emit (UpdateDownloaded v) g)))"
    by (rule on_dialog_closed_keeps)
  define g0 where "g0 = createWindow rt None initial"
  have w0: "mainWindow g0 = True" "pending g0 = []"
    by (simp_all add: g0_def createWindow_fields initial_def)
  have concrete: "trace (on_dialog_closed 0 1 (on_emit (UpdateDownloaded ''1.0.1'') g0)) =
       trace g0 @
       [ShowMessageBox ''Update Ready''
          ''Version 1.0.1 has been downloaded. Would you like to install it now?''
          [''Yes'', ''No''],
        Send ''update-status'' (JStr ''Update downloaded. Restarting...''),
        UpdaterQuitAndInstall]"
    by (simp add: on_emit_def on_dialog_closed_def w0 emit_window_simps List.map_filter_simps)
  from emitted declined concrete show ?thesis
    by (simp add: run_append g_def g0_def)
qed



text \<open>
  C3. The claim: a check invoked while a check or a download is in progress is a no-op.  The
  code: after the check of the start, with \<open>checking-for-update\<close> just emitted, the
  callback of the timer calls the updater a second time; and so it does in the middle of a
  download the user accepted.
\<close>

theorem interval_during_check_counterexample:
  "count_list (trace (run (packaged_linux empty_disk)
       [WhenReady None, Emit CheckingForUpdate] initial)) UpdaterCheckForUpdates = 1
   \<and> count_list (trace (run (packaged_linux empty_disk)
       [WhenReady None, Emit CheckingForUpdate, Interval] initial)) UpdaterCheckForUpdates = 2
   \<and> count_list (trace (run (packaged_linux empty_disk)
       [WhenReady None, Emit CheckingForUpdate, Emit (UpdateAvailable ''1.0.1''),
        DialogClosed 0 0, Emit (DownloadProgress (JObj [(''percent'', JNum 40)]))] initial))
       UpdaterCheckForUpdates = 1
   \<and> count_list (trace (run (packaged_linux empty_disk)
       [WhenReady None, Emit CheckingForUpdate, Emit (UpdateAvailable ''1.0.1''),
        DialogClosed 0 0, Emit (DownloadProgress (JObj [(''percent'', JNum 40)])),
        Interval] initial))
       UpdaterCheckForUpdates = 2"
  by (simp add: createWindow_def checkForUpdates_def startFlaskServer_def getPythonPath_def
      packaged_linux_def empty_disk_def fs_existsSync_def did_def initial_def on_emit_def
      emit_window_simps on_interval_def on_dialog_closed_def List.map_filter_simps
      posix_join_def plain_error_def)

text \<open>
  C3, as the code has it: whatever happened before, the callback of the timer adds exactly
  one call of the updater's \<open>checkForUpdates\<close> and changes nothing else, and so does the
  function \<open>checkForUpdates\<close>; main.js keeps no state of the update and has no guard.
\<close>

theorem every_check_calls_updater:
  "run rt (ins @ [Interval]) h = (run rt ins h)\<lparr>trace := trace (run rt ins h) @ [UpdaterCheckForUpdates]\<rparr>
   \<and> checkForUpdates None g = g\<lparr>trace := trace g @ [UpdaterCheckForUpdates]\<rparr>
   \<and> checkForUpdates (Some err) g =
       g\<lparr>trace := trace g @
           [UpdaterCheckForUpdates,
            Console (ConsoleError ''Error checking for updates:'' (message err))]\<rparr>"
  by (simp add: run_append on_interval_def checkForUpdates_def did_def)

section \<open>The sidecar\<close>

text \<open>
  C8. In packaged mode, when the interpreter bundled under the resources path does not exist,
  \<open>startFlaskServer\<close> logs and shows one error box naming the path, spawns nothing and
  leaves \<open>flaskProcess\<close> as it was; in development mode the interpreter is the name
  \<open>python\<close> (Windows) or \<open>python3\<close>, looked up on the PATH.
\<close>

theorem startFlaskServer_missing_interpreter:
  "(NODE_ENV rt \<noteq> Some ''development'' \<and> resourcesPath rt = Some rp \<and> rp \<noteq> [] \<and>
    pythonPath = (if platform rt = ''win32''
                  then path_join rt [rp, ''python'', ''Scripts'', ''python.exe'']
                  else path_join rt [rp, ''python'', ''bin'', ''python3'']) \<and>
    \<not> fs_existsSync rt pythonPath
    \<longrightarrow> startFlaskServer rt h =
          h\<lparr>trace := trace h @
              [Console (ConsoleError ''Error starting Flask server:''
                          (''Python executable not found at: '' @ pythonPath)),
               ShowErrorBox ''Server Error''
                 (''Failed to start server: Python executable not found at: '' @ pythonPath)]\<rparr>
        \<and> flaskProcess (startFlaskServer rt h) = flaskProcess h)
   \<and> (NODE_ENV rt = Some ''development''
      \<longrightarrow> getPythonPath rt = Inr (if platform rt = ''win32'' then ''python'' else ''python3''))"
  by (auto simp: startFlaskServer_def getPythonPath_def did_def Let_def plain_error_def)

theorem startFlaskServer_missing_interpreter_witness:
  "startFlaskServer (packaged_linux empty_disk) initial =
     \<lparr>trace = [Console (ConsoleError ''Error starting Flask server:''
                 ''Python executable not found at: /opt/VibeCheck/resources/python/bin/python3''),
               ShowErrorBox ''Server Error''
                 ''Failed to start server: Python executable not found at: /opt/VibeCheck/resources/python/bin/python3''],
      pending = [], flaskProcess = None, mainWindow = False\<rparr>
   \<and> getPythonPath (development_linux empty_disk) = Inr ''python3''"
  using startFlaskServer_missing_interpreter
    [of "packaged_linux empty_disk" "''/opt/VibeCheck/resources''"
        "''/opt/VibeCheck/resources/python/bin/python3''" initial]
    startFlaskServer_missing_interpreter
    [of "development_linux empty_disk" "[]" "[]" initial]
  by (simp add: packaged_linux_def development_linux_def empty_disk_def posix_join_def
      fs_existsSync_def initial_def)

section \<open>get-file-info\<close>

text \<open>
  C9. For a path that names a readable file, get-file-info returns the size equal to the
  number of bytes of the file and the name equal to the base name of the path.
\<close>

theorem get_file_info_size_and_name:
  assumes "files rt p = RegularFile bytes t"
  shows "get_file_info rt p =
           ([], Returned (JObj [(''name'', JStr (path_basename rt p)),
                                (''size'', JNum (int (length bytes))),
                                (''lastModified'', JDate t)]))"
  using assms by (simp add: get_file_info_def fs_stat_def)

theorem get_file_info_size_and_name_witness:
  "files (packaged_linux (one_file ''/data/sample.ide'' (replicate 1024 (CHR ''v'')) 1700000000000))
     ''/data/sample.ide'' = RegularFile (replicate 1024 (CHR ''v'')) 1700000000000
   \<and> get_file_info (packaged_linux (one_file ''/data/sample.ide'' (replicate 1024 (CHR ''v'')) 1700000000000))
       ''/data/sample.ide'' =
       ([], Returned (JObj [(''name'', JStr ''sample.ide''), (''size'', JNum 1024),
                            (''lastModified'', JDate 1700000000000)]))"
  using get_file_info_size_and_name
    [of "packaged_linux (one_file ''/data/sample.ide'' (replicate 1024 (CHR ''v'')) 1700000000000)"
        "''/data/sample.ide''" "replicate 1024 (CHR ''v'')" 1700000000000]
  by (simp add: packaged_linux_def one_file_def posix_basename_def)

text \<open>
  C4. The claim: for a path that does not exist, the failure comes back as a failure value.
  The code: the handler returns no value at all; it throws the error of \<open>stat\<close> again, and
  the renderer's \<open>invoke\<close> is rejected.
\<close>

theorem get_file_info_missing_counterexample:
  "snd (get_file_info (packaged_linux empty_disk) ''/data/missing.ide'') =
     Thrown (system_error ''ENOENT'' ''no such file or directory'' ''/data/missing.ide'')
   \<and> \<not> is_returned (snd (get_file_info (packaged_linux empty_disk) ''/data/missing.ide''))"
  by (simp add: get_file_info_def fs_stat_def packaged_linux_def empty_disk_def)

text \<open>
  C4, as the code has it: for a path that does not exist or cannot be reached, get-file-info
  logs the error of \<open>stat\<close> and throws that same error; it returns no value, hence no
  partly filled one.
\<close>

theorem get_file_info_rethrows:
  assumes "files rt p = Absent \<or> files rt p = NoAccess"
  shows "\<exists>e. fs_stat rt p = Inl e \<and>
             get_file_info rt p = ([ConsoleError ''Error getting file info:'' (message e)], Thrown e)"
  using assms by (auto simp: get_file_info_def fs_stat_def)

theorem get_file_info_rethrows_witness:
  "files (packaged_linux (one_file ''/data/sample.ide'' [] 0)) ''/data/other.ide'' = Absent \<and>
   get_file_info (packaged_linux (one_file ''/data/sample.ide'' [] 0)) ''/data/other.ide'' =
     ([ConsoleError ''Error getting file info:''
         (''ENOENT: no such file or directory, stat '' @ [CHR 0x27] @ ''/data/other.ide'' @ [CHR 0x27])],
      Thrown (system_error ''ENOENT'' ''no such file or directory'' ''/data/other.ide''))"
  using get_file_info_rethrows
    [of "packaged_linux (one_file ''/data/sample.ide'' [] 0)" "''/data/other.ide''"]
  by (auto simp: packaged_linux_def one_file_def fs_stat_def system_error_def)

section \<open>analyze-file\<close>

text \<open>
  C2. The claim: on \<open>{success:true, reportPath:"X"}\<close> the answer carries \<open>"X"\<close> under the
  name \<open>reportPath\<close>.  The code: the answer has no property \<open>reportPath\<close>.
\<close>

theorem analyze_file_reportPath_counterexample:
  "result_field
     (snd (analyze_file (Resolved (JObj [(''success'', JBool True), (''reportPath'', JStr ''X'')]))))
     ''reportPath'' \<noteq> Some (JStr ''X'')"
  by (simp add: analyze_file_def field_def)

text \<open>
  C2, as the code has it: when the service answers with \<open>success\<close> true and
  \<open>reportPath\<close> \<open>X\<close>, analyze-file returns \<open>{success: true, path: X}\<close>: the report path of
  the service, under the name \<open>path\<close>.
\<close>

theorem analyze_file_success_path:
  assumes "get_prop d ''success'' = Inr (JBool True)"
    and "get_prop d ''reportPath'' = Inr (JStr X)"
  shows "analyze_file (Resolved d) =
           ([], Returned (JObj [(''success'', JBool True), (''path'', JStr X)]))"
  using assms by (simp add: analyze_file_def)

theorem analyze_file_success_path_witness:
  "get_prop (JObj [(''success'', JBool True), (''reportPath'', JStr ''X'')]) ''success'' = Inr (JBool True)
   \<and> get_prop (JObj [(''success'', JBool True), (''reportPath'', JStr ''X'')]) ''reportPath'' = Inr (JStr ''X'')
   \<and> analyze_file (Resolved (JObj [(''success'', JBool True), (''reportPath'', JStr ''X'')])) =
       ([], Returned (JObj [(''success'', JBool True), (''path'', JStr ''X'')]))"
  using analyze_file_success_path
    [of "JObj [(''success'', JBool True), (''reportPath'', JStr ''X'')]" "''X''"]
  by simp

text \<open>
  C6. When the service answers with \<open>success\<close> false and \<open>error\<close> a non-empty string
  \<open>E\<close>, analyze-file returns the failure whose \<open>error\<close> is exactly \<open>E\<close>.
\<close>

theorem analyze_file_failure_message:
  assumes "get_prop d ''success'' = Inr (JBool False)"
    and "get_prop d ''error'' = Inr (JStr E)"
    and "E \<noteq> []"
  shows "analyze_file (Resolved d) = ([], Returned (failure E))"
  using assms by (simp add: analyze_file_def failure_def js_or_def)

theorem analyze_file_failure_message_witness:
  "get_prop (JObj [(''success'', JBool False), (''error'', JStr ''bad format'')]) ''success''
     = Inr (JBool False)
   \<and> get_prop (JObj [(''success'', JBool False), (''error'', JStr ''bad format'')]) ''error''
     = Inr (JStr ''bad format'')
   \<and> ''bad format'' \<noteq> []
   \<and> analyze_file (Resolved (JObj [(''success'', JBool False), (''error'', JStr ''bad format'')]))
     = ([], Returned (JObj [(''success'', JBool False), (''error'', JStr ''bad format'')]))"
  using analyze_file_failure_message
    [of "JObj [(''success'', JBool False), (''error'', JStr ''bad format'')]" "''bad format''"]
  by (simp add: failure_def)

text \<open>
  C5. The claim: every failure of the transport, a malformed response among them, is
  answered with a failure whose message does not hand the raw transport error to the
  renderer.  The code: the message of a refused connection is passed on word for word, and
  a body \<open>{success: true}\<close> with no report path is answered as a success.
\<close>

theorem analyze_file_transport_counterexample:
  "snd (analyze_file (Rejected \<lparr>err_name = ''AxiosError'', err_code = Some ''ECONNREFUSED'',
                               message = ''connect ECONNREFUSED 127.0.0.1:5000''\<rparr>))
     = Returned (JObj [(''success'', JBool False),
                       (''error'', JStr ''connect ECONNREFUSED 127.0.0.1:5000'')])
   \<and> snd (analyze_file (Resolved (JObj [(''success'', JBool True)])))
     = Returned (JObj [(''success'', JBool True), (''path'', JUndefined)])"
  by (simp add: analyze_file_def analyze_catch_def js_or_def)

text \<open>
  C5, as the code has it: analyze-file never throws.  An exception thrown in the call
  (connection refused, a status outside 2xx, a timeout raised by the transport) is logged
  and answered with the failure whose message is the message of the exception, word for
  word, or \<open>Failed to analyze file\<close> when that is empty; so is the \<open>TypeError\<close> of a body
  that is \<open>null\<close> or \<open>undefined\<close>.  Any other body is read as it is: when its \<open>success\<close>
  is not truthy the answer is the failure with its \<open>error\<close>, or \<open>Analysis failed\<close> when that
  is not truthy; when its \<open>success\<close> is truthy the answer is the success with its
  \<open>reportPath\<close>, present or not.
\<close>

theorem analyze_file_answers:
  "analyze_file (Rejected e) =
     ([ConsoleError ''Analysis error:'' (message e)],
      Returned (failure (if message e = [] then ''Failed to analyze file'' else message e)))
   \<and> (get_prop d ''success'' = Inl te
      \<longrightarrow> analyze_file (Resolved d) =
            ([ConsoleError ''Analysis error:'' (message te)], Returned (failure (message te)))
          \<and> message te \<noteq> [])
   \<and> (get_prop d ''success'' = Inr s \<and> \<not> truthy s
      \<longrightarrow> analyze_file (Resolved d) =
            ([], Returned (JObj [(''success'', JBool False),
                                 (''error'', if truthy (field d ''error'') then field d ''error''
                                             else JStr ''Analysis failed'')])))
   \<and> (get_prop d ''success'' = Inr s \<and> truthy s
      \<longrightarrow> analyze_file (Resolved d) =
            ([], Returned (JObj [(''success'', JBool True), (''path'', field d ''reportPath'')])))
   \<and> snd (analyze_file po) \<noteq> Thrown x"
proof -
  have caught: "analyze_file (Rejected e) =
     ([ConsoleError ''Analysis error:'' (message e)],
      Returned (failure (if message e = [] then ''Failed to analyze file'' else message e)))"
    by (simp add: analyze_file_def analyze_catch_def js_or_def failure_def)
  have unreadable: "analyze_file (Resolved d) =
            ([ConsoleError ''Analysis error:'' (message te)], Returned (failure (message te)))
          \<and> message te \<noteq> []"
    if "get_prop d ''success'' = Inl te"
    using that
    by (cases d) (auto simp: analyze_file_def analyze_catch_def js_or_def failure_def type_error_def)
  have other: "get_prop d k = Inr (field d k)" if "get_prop d ''success'' = Inr s" for k
    using that by (cases d) (simp_all add: field_def)
  have refused: "analyze_file (Resolved d) =
            ([], Returned (JObj [(''success'', JBool False),
                                 (''error'', if truthy (field d ''error'') then field d ''error''
                                             else JStr ''Analysis failed'')]))"
    if "get_prop d ''success'' = Inr s" "\<not> truthy s"
    using that other [OF that(1), of "''error''"] by (simp add: analyze_file_def js_or_def)
  have accepted: "analyze_file (Resolved d) =
            ([], Returned (JObj [(''success'', JBool True), (''path'', field d ''reportPath'')]))"
    if "get_prop d ''success'' = Inr s" "truthy s"
    using that other [OF that(1), of "''reportPath''"] by (simp add: analyze_file_def)
  have never: "snd (analyze_file po) \<noteq> Thrown x"
    by (auto simp: analyze_file_def analyze_catch_def split: post_outcome.splits sum.splits)
  from caught unreadable refused accepted never show ?thesis by blast
qed

theorem analyze_file_answers_witness:
  "analyze_file (Rejected \<lparr>err_name = ''AxiosError'', err_code = Some ''ECONNREFUSED'',
                          message = ''connect ECONNREFUSED 127.0.0.1:5000''\<rparr>) =
     ([ConsoleError ''Analysis error:'' ''connect ECONNREFUSED 127.0.0.1:5000''],
      Returned (failure ''connect ECONNREFUSED 127.0.0.1:5000''))
   \<and> get_prop JNull ''success'' = Inl (type_error ''null'' ''success'')
   \<and> snd (analyze_file (Resolved JNull)) = Returned (failure (message (type_error ''null'' ''success'')))
   \<and> get_prop (JStr ''<html>Bad Gateway</html>'') ''success'' = Inr JUndefined
   \<and> \<not> truthy JUndefined
   \<and> snd (analyze_file (Resolved (JStr ''<html>Bad Gateway</html>''))) = Returned (failure ''Analysis failed'')
   \<and> get_prop (JObj [(''success'', JBool True)]) ''success'' = Inr (JBool True)
   \<and> truthy (JBool True)
   \<and> snd (analyze_file (Resolved (JObj [(''success'', JBool True)]))) =
       Returned (JObj [(''success'', JBool True), (''path'', JUndefined)])"
  using analyze_file_answers
      [where e = "\<lparr>err_name = ''AxiosError'', err_code = Some ''ECONNREFUSED'',
                    message = ''connect ECONNREFUSED 127.0.0.1:5000''\<rparr>"
         and d = JNull and te = "type_error ''null'' ''success''"]
    analyze_file_answers
      [where d = "JStr ''<html>Bad Gateway</html>''" and s = JUndefined]
    analyze_file_answers
      [where d = "JObj [(''success'', JBool True)]" and s = "JBool True"]
  by (simp add: field_def failure_def)

text \<open>
  C10. With \<open>success\<close> not true and \<open>error\<close> absent or empty, analyze-file returns the
  failure \<open>Analysis failed\<close>; when the exception caught has an empty message, it returns the
  failure \<open>Failed to analyze file\<close>; so the \<open>error\<close> of a failure it returns is never empty.
\<close>

theorem analyze_file_default_messages:
  "(get_prop d ''success'' = Inr s \<and> \<not> truthy s \<and>
    (get_prop d ''error'' = Inr JUndefined \<or> get_prop d ''error'' = Inr (JStr []))
      \<longrightarrow> snd (analyze_file (Resolved d)) = Returned (failure ''Analysis failed''))
   \<and> (message e = []
      \<longrightarrow> snd (analyze_file (Rejected e)) = Returned (failure ''Failed to analyze file''))
   \<and> (snd (analyze_file po) = Returned r \<and> field r ''success'' = JBool False
        \<longrightarrow> truthy (field r ''error'') \<and> field r ''error'' \<noteq> JStr [])"
proof -
  have absent: "get_prop d ''success'' = Inr s \<and> \<not> truthy s \<and>
    (get_prop d ''error'' = Inr JUndefined \<or> get_prop d ''error'' = Inr (JStr []))
      \<longrightarrow> snd (analyze_file (Resolved d)) = Returned (failure ''Analysis failed'')"
    by (auto simp: analyze_file_def js_or_def failure_def)
  have caught: "message e = []
      \<longrightarrow> snd (analyze_file (Rejected e)) = Returned (failure ''Failed to analyze file'')"
    by (simp add: analyze_file_def analyze_catch_def js_or_def failure_def)
  have filled: "truthy (field r ''error'')"
    if "snd (analyze_file po) = Returned r" "field r ''success'' = JBool False"
    using that
    by (auto simp: analyze_file_def analyze_catch_def field_def js_or_def
        split: post_outcome.splits sum.splits if_splits)
  then have nonempty: "field r ''error'' \<noteq> JStr []"
    if "snd (analyze_file po) = Returned r" "field r ''success'' = JBool False"
    using that by fastforce
  from absent caught filled nonempty show ?thesis by blast
qed

theorem analyze_file_default_messages_witness:
  "snd (analyze_file (Resolved (JObj [(''success'', JBool False)])))
     = Returned (failure ''Analysis failed'')
   \<and> snd (analyze_file (Rejected \<lparr>err_name = ''Error'', err_code = None, message = []\<rparr>))
       = Returned (failure ''Failed to analyze file'')
   \<and> field (failure ''Analysis failed'') ''error'' \<noteq> JStr []"
  using analyze_file_default_messages
    [of "JObj [(''success'', JBool False)]" "JBool False"
        "\<lparr>err_name = ''Error'', err_code = None, message = []\<rparr>"
        "Resolved (JObj [(''success'', JBool False)])" "failure ''Analysis failed''"]
  by (simp add: failure_def field_def)

end
